theory Spec2Isabelle
  imports Complex_Main
begin

section \<open>UnityRange: clamping a float to the unit interval\<close>

text \<open>
  \<^verbatim>\<open>firebase::UnityRange::val(float value)\<close> does no arithmetic: it compares its argument
  with the constants 1 and 0 and returns one of the three. A C++ \<^verbatim>\<open>float\<close> is either a
  finite number, one of the two infinities, or a NaN; the finite ones are modelled by the reals
  they denote (the two signed zeros denote the same real and compare equal in C++ as well).
  The comparisons are those of IEEE 754: every ordered comparison with a NaN is false, and a
  NaN is not equal to anything, itself included.
\<close>

datatype cfloat = Finite real | PosInf | NegInf | NaN

fun float_lt :: "cfloat \<Rightarrow> cfloat \<Rightarrow> bool" where
  "float_lt (Finite a) (Finite b) = (a < b)"
| "float_lt (Finite a) PosInf = True"
| "float_lt NegInf (Finite b) = True"
| "float_lt NegInf PosInf = True"
| "float_lt _ _ = False"

definition float_gt :: "cfloat \<Rightarrow> cfloat \<Rightarrow> bool" where
  "float_gt a b = float_lt b a"

fun float_eq :: "cfloat \<Rightarrow> cfloat \<Rightarrow> bool" where
  "float_eq (Finite a) (Finite b) = (a = b)"
| "float_eq PosInf PosInf = True"
| "float_eq NegInf NegInf = True"
| "float_eq _ _ = False"

definition float_le :: "cfloat \<Rightarrow> cfloat \<Rightarrow> bool" where
  "float_le a b = (float_lt a b \<or> float_eq a b)"

text \<open>
  \<^verbatim>\<open>if (value > 1) value = 1; else if (value < 0) value = 0; return value;\<close>
  The integer literals are converted to the floats 1.0 and 0.0.
\<close>

definition UnityRange_val :: "cfloat \<Rightarrow> cfloat" where
  "UnityRange_val x =
     (if float_gt x (Finite 1) then Finite 1
      else if float_lt x (Finite 0) then Finite 0
      else x)"

section \<open>ObjectWriter: resource paths\<close>

text \<open>
  An Arduino \<^verbatim>\<open>String\<close> is a sequence of bytes, here a \<^typ>\<open>string\<close>. The macro
  \<^verbatim>\<open>RESOURCE_PATH_BASE\<close> is \<^verbatim>\<open>FPSTR("<resource_path>")\<close>.
\<close>

definition RESOURCE_PATH_BASE :: string where
  "RESOURCE_PATH_BASE = ''<resource_path>''"

definition dquote :: char where
  "dquote = CHR 0x22"

text \<open>
  \<^verbatim>\<open>makeResourcePath(const String &path, bool toString = false)\<close> builds the local
  \<^verbatim>\<open>full_path\<close> by successive \<^verbatim>\<open>+=\<close>; each \<open>let\<close> below is one statement of the
  source. \<^verbatim>\<open>path[0]\<close> is only read under the guard \<^verbatim>\<open>path.length()\<close>. The argument is a
  const reference that the body only reads, so the model takes it as a value and returns the
  new string alone.
\<close>

definition makeResourcePath :: "string \<Rightarrow> bool \<Rightarrow> string" where
  "makeResourcePath path toString =
     (let full_path = [];
          full_path = (if toString then full_path @ [dquote] else full_path);
          full_path = full_path @ RESOURCE_PATH_BASE;
          full_path =
            (if length path \<noteq> 0 then
               (let full_path =
                      (if length path \<noteq> 0 \<and> path ! 0 \<noteq> CHR ''/''
                       then full_path @ [CHR ''/''] else full_path)
                in full_path @ path)
             else full_path);
          full_path = (if toString then full_path @ [dquote] else full_path)
      in full_path)"

text \<open>
  The same function in the words of its description: the base, a separator exactly when the
  path is non-empty and does not start with a slash, the path, and double quotes around all of
  it exactly when \<open>toString\<close> is set.
\<close>

definition resource_path_described :: "string \<Rightarrow> bool \<Rightarrow> string" where
  "resource_path_described path toString =
     (let sep = (if path \<noteq> [] \<and> hd path \<noteq> CHR ''/'' then ''/'' else '''');
          body = RESOURCE_PATH_BASE @ sep @ path
      in if toString then [dquote] @ body @ [dquote] else body)"

section \<open>Firestore::Databases: the synchronous operations\<close>

text \<open>
  \<^verbatim>\<open>Firestore::Databases\<close> and \<^verbatim>\<open>Firestore::Databases::Indexes\<close> derive from
  \<^verbatim>\<open>FirestoreBase\<close>, whose members \<^verbatim>\<open>eximDocs\<close>, \<^verbatim>\<open>manageDatabase\<close> and
  \<^verbatim>\<open>databaseIndexManager\<close> perform the request. That base class, \<^verbatim>\<open>AsyncResult\<close>
  and \<^verbatim>\<open>DatabaseIndex::Index\<close> are declared in other headers, so they are parameters of
  the model, collected in one record:
  \<^item> \<open>AsyncResult_new\<close> is the default-constructed \<^verbatim>\<open>AsyncResult\<close>;
  \<^item> \<open>lastError_code r\<close> is \<^verbatim>\<open>r.lastError.code()\<close>;
  \<^item> \<open>Index_new s\<close> is \<^verbatim>\<open>DatabaseIndex::Index index(s)\<close>;
  \<^item> each helper takes the client (passed by reference) and the result object its pointer
    argument points to, and returns both as the call leaves them. The callback argument is an
    option (\<^verbatim>\<open>NULL\<close> is \<open>None\<close>), the other arguments are in the source's order.
  A \<^verbatim>\<open>Database\<close> object enters only through \<^verbatim>\<open>database.c_str()\<close>, so it is modelled
  by that string.
\<close>

datatype firestore_database_mode =
    firestore_database_mode_create
  | firestore_database_mode_delete
  | firestore_database_mode_get
  | firestore_database_mode_list
  | firestore_database_mode_patch

record ('c, 'r, 'p, 'o, 'i, 'cb) FirestoreBase =
  AsyncResult_new :: 'r
  lastError_code :: "'r \<Rightarrow> int"
  Index_new :: "string \<Rightarrow> 'i"
  eximDocs ::
    "'c \<Rightarrow> 'r \<Rightarrow> 'cb option \<Rightarrow> string \<Rightarrow> 'p \<Rightarrow> 'o \<Rightarrow> bool \<Rightarrow> bool \<Rightarrow> 'c \<times> 'r"
  manageDatabase ::
    "'c \<Rightarrow> 'r \<Rightarrow> 'cb option \<Rightarrow> string \<Rightarrow> 'p \<Rightarrow> string \<Rightarrow> string \<Rightarrow>
     firestore_database_mode \<Rightarrow> bool \<Rightarrow> 'c \<times> 'r"
  databaseIndexManager ::
    "'c \<Rightarrow> 'r \<Rightarrow> 'cb option \<Rightarrow> string \<Rightarrow> 'p \<Rightarrow> 'i \<Rightarrow> string \<Rightarrow> bool \<Rightarrow> bool \<Rightarrow> 'c \<times> 'r"

text \<open>
  Each operation returns its boolean together with the client as the helper left it.
  The source is, for \<^verbatim>\<open>exportDocuments\<close>:
  \<^verbatim>\<open>AsyncResult result;
  eximDocs(aClient, &result, NULL, "", parent, exportOptions, false, false);
  return result.lastError.code() == 0;\<close>
\<close>

definition exportDocuments ::
  "('c, 'r, 'p, 'o, 'i, 'cb) FirestoreBase \<Rightarrow> 'c \<Rightarrow> 'p \<Rightarrow> 'o \<Rightarrow> bool \<times> 'c" where
  "exportDocuments fb aClient parent exportOptions =
     (let result = AsyncResult_new fb;
          (aClient, result) =
             eximDocs fb aClient result None '''' parent exportOptions False False
      in (lastError_code fb result = 0, aClient))"

definition importDocuments ::
  "('c, 'r, 'p, 'o, 'i, 'cb) FirestoreBase \<Rightarrow> 'c \<Rightarrow> 'p \<Rightarrow> 'o \<Rightarrow> bool \<times> 'c" where
  "importDocuments fb aClient parent importOptions =
     (let result = AsyncResult_new fb;
          (aClient, result) =
             eximDocs fb aClient result None '''' parent importOptions True False
      in (lastError_code fb result = 0, aClient))"

definition create ::
  "('c, 'r, 'p, 'o, 'i, 'cb) FirestoreBase \<Rightarrow> 'c \<Rightarrow> 'p \<Rightarrow> string \<Rightarrow> bool \<times> 'c" where
  "create fb aClient parent database =
     (let result = AsyncResult_new fb;
          (aClient, result) =
             manageDatabase fb aClient result None '''' parent database ''''
               firestore_database_mode_create False
      in (lastError_code fb result = 0, aClient))"

definition deleteDatabase ::
  "('c, 'r, 'p, 'o, 'i, 'cb) FirestoreBase \<Rightarrow> 'c \<Rightarrow> 'p \<Rightarrow> string \<Rightarrow> bool \<times> 'c" where
  "deleteDatabase fb aClient parent etag =
     (let result = AsyncResult_new fb;
          (aClient, result) =
             manageDatabase fb aClient result None '''' parent '''' etag
               firestore_database_mode_delete False
      in (lastError_code fb result = 0, aClient))"

definition get ::
  "('c, 'r, 'p, 'o, 'i, 'cb) FirestoreBase \<Rightarrow> 'c \<Rightarrow> 'p \<Rightarrow> bool \<times> 'c" where
  "get fb aClient parent =
     (let result = AsyncResult_new fb;
          (aClient, result) =
             manageDatabase fb aClient result None '''' parent '''' ''''
               firestore_database_mode_get False
      in (lastError_code fb result = 0, aClient))"

definition list ::
  "('c, 'r, 'p, 'o, 'i, 'cb) FirestoreBase \<Rightarrow> 'c \<Rightarrow> 'p \<Rightarrow> bool \<times> 'c" where
  "list fb aClient parent =
     (let result = AsyncResult_new fb;
          (aClient, result) =
             manageDatabase fb aClient result None '''' parent '''' ''''
               firestore_database_mode_list False
      in (lastError_code fb result = 0, aClient))"

definition patch ::
  "('c, 'r, 'p, 'o, 'i, 'cb) FirestoreBase \<Rightarrow> 'c \<Rightarrow> 'p \<Rightarrow> string \<Rightarrow> string \<Rightarrow> bool \<times> 'c" where
  "patch fb aClient parent database updateMask =
     (let result = AsyncResult_new fb;
          (aClient, result) =
             manageDatabase fb aClient result None '''' parent database updateMask
               firestore_database_mode_patch False
      in (lastError_code fb result = 0, aClient))"

text \<open>The operations of the nested class \<^verbatim>\<open>Indexes\<close>.\<close>

definition Indexes_create ::
  "('c, 'r, 'p, 'o, 'i, 'cb) FirestoreBase \<Rightarrow> 'c \<Rightarrow> 'p \<Rightarrow> 'i \<Rightarrow> bool \<times> 'c" where
  "Indexes_create fb aClient parent index =
     (let result = AsyncResult_new fb;
          (aClient, result) =
             databaseIndexManager fb aClient result None '''' parent index '''' False False
      in (lastError_code fb result = 0, aClient))"

definition Indexes_deleteIndex ::
  "('c, 'r, 'p, 'o, 'i, 'cb) FirestoreBase \<Rightarrow> 'c \<Rightarrow> 'p \<Rightarrow> string \<Rightarrow> bool \<times> 'c" where
  "Indexes_deleteIndex fb aClient parent indexId =
     (let result = AsyncResult_new fb;
          index = Index_new fb '''';
          (aClient, result) =
             databaseIndexManager fb aClient result None '''' parent index indexId True False
      in (lastError_code fb result = 0, aClient))"

definition Indexes_get ::
  "('c, 'r, 'p, 'o, 'i, 'cb) FirestoreBase \<Rightarrow> 'c \<Rightarrow> 'p \<Rightarrow> string \<Rightarrow> bool \<times> 'c" where
  "Indexes_get fb aClient parent indexId =
     (let result = AsyncResult_new fb;
          index = Index_new fb '''';
          (aClient, result) =
             databaseIndexManager fb aClient result None '''' parent index indexId False False
      in (lastError_code fb result = 0, aClient))"

definition Indexes_list ::
  "('c, 'r, 'p, 'o, 'i, 'cb) FirestoreBase \<Rightarrow> 'c \<Rightarrow> 'p \<Rightarrow> bool \<times> 'c" where
  "Indexes_list fb aClient parent =
     (let result = AsyncResult_new fb;
          index = Index_new fb '''';
          (aClient, result) =
             databaseIndexManager fb aClient result None '''' parent index '''' False False
      in (lastError_code fb result = 0, aClient))"

section \<open>The async queue: admission\<close>

text \<open>
  The queue engine of the async client (\<^verbatim>\<open>AsyncClientClass\<close>) is declared outside the
  headers modelled above. The README documents it (ten slots by default,
  \<^verbatim>\<open>FIREBASE_ASYNC_QUEUE_LIMIT\<close>, the error code \<^verbatim>\<open>-118\<close> named
  \<^verbatim>\<open>FIREBASE_ERROR_OPERATION_CANCELLED\<close>) and the design specification describes its data
  and its \<^verbatim>\<open>enqueue\<close> operation. The definitions of this section follow that description
  sentence by sentence. Only the fields that admission reads or writes are kept.
\<close>

text \<open>
  Modelled from the spec: the task kinds \<^verbatim>\<open>ordinary\<close>, \<^verbatim>\<open>authentication\<close>,
  \<^verbatim>\<open>streaming\<close> of an Async Task (the task declaration is missing from the sources).
\<close>

datatype task_kind = Ordinary | Authentication | Streaming

text \<open>
  Modelled from the spec: the task states \<^verbatim>\<open>queued\<close>, \<^verbatim>\<open>connecting\<close>, \<^verbatim>\<open>sending\<close>,
  \<^verbatim>\<open>receiving\<close>, \<^verbatim>\<open>streaming-idle\<close>, \<^verbatim>\<open>complete\<close>, \<^verbatim>\<open>cancelled\<close>, \<^verbatim>\<open>error\<close>.
\<close>

datatype task_state =
  Queued | Connecting | Sending | Receiving | StreamingIdle | Complete | Cancelled | Error

text \<open>
  Modelled from the spec: the Async Result, the mailbox through which a caller observes a
  task; of its fields the payload buffer and the error code are kept.
\<close>

record async_result =
  payload :: string
  error_code :: int

text \<open>
  Modelled from the spec: the Async Task with its optional caller-supplied UID, its kind, its
  state and the reference to its Async Result sink. A result may be caller-owned and reused
  by many tasks, so the sink is an address into a store of results and two tasks may share
  one.
\<close>

record async_task =
  uid :: string
  kind :: task_kind
  state :: task_state
  sink :: nat

text \<open>
  Modelled from the spec: one Async Client: its ordered, capacity-bounded queue of tasks,
  the configured capacity, the store of results and whether the shared transport is
  connected.
\<close>

record async_client =
  queue :: "async_task list"
  capacity :: nat
  results :: "nat \<Rightarrow> async_result"
  transport_connected :: bool

text \<open>
  Modelled from the spec: the queue size constant, default 10 entries per client
  (\<^verbatim>\<open>Config.h\<close>, which defines the macro, is missing from the sources).
\<close>

definition FIREBASE_ASYNC_QUEUE_LIMIT :: nat where
  "FIREBASE_ASYNC_QUEUE_LIMIT = 10"

text \<open>
  Modelled from the spec: the error code surface, where \<^verbatim>\<open>-118\<close> denotes
  operation-cancelled.
\<close>

definition FIREBASE_ERROR_OPERATION_CANCELLED :: int where
  "FIREBASE_ERROR_OPERATION_CANCELLED = - 118"

text \<open>
  Modelled from the spec: what \<^verbatim>\<open>enqueue(task)\<close> reports: the task was admitted, or the
  call failed with \<^verbatim>\<open>QueueFull\<close>.
\<close>

datatype enqueue_outcome = Admitted | QueueFull

text \<open>Modelled from the spec: a task of the streaming kind.\<close>

definition is_streaming :: "async_task \<Rightarrow> bool" where
  "is_streaming t = (kind t = Streaming)"

text \<open>
  Modelled from the spec: publishing an error code to a result; the other fields of the
  result, and every other result, are left as they are.
\<close>

definition publish_error ::
  "nat \<Rightarrow> int \<Rightarrow> (nat \<Rightarrow> async_result) \<Rightarrow> (nat \<Rightarrow> async_result)" where
  "publish_error r c rs = rs(r := (rs r)\<lparr>error_code := c\<rparr>)"

text \<open>
  Modelled from the spec: cancelling tasks publishes \<^verbatim>\<open>OperationCancelled\<close> (code -118)
  to the result of each, in queue order.
\<close>

definition cancel_tasks ::
  "async_task list \<Rightarrow> (nat \<Rightarrow> async_result) \<Rightarrow> (nat \<Rightarrow> async_result)" where
  "cancel_tasks ts rs =
     fold (\<lambda>t. publish_error (sink t) FIREBASE_ERROR_OPERATION_CANCELLED) ts rs"

text \<open>
  Modelled from the spec: "a single streaming task, if present, is always logically last
  among active tasks: new tasks are inserted ahead of it, never behind". The new task goes
  behind every task that precedes the stream, so the queue stays first-in first-out and
  authentication tasks stay in front.
\<close>

definition insert_ahead_of_stream :: "async_task \<Rightarrow> async_task list \<Rightarrow> async_task list" where
  "insert_ahead_of_stream t q =
     takeWhile (\<lambda>x. \<not> is_streaming x) q @ t # dropWhile (\<lambda>x. \<not> is_streaming x) q"

text \<open>
  Modelled from the spec: \<^verbatim>\<open>enqueue(task)\<close> of the queue engine, which "fails with
  QueueFull if capacity reached and the task is not an authentication task (authentication
  tasks always admitted, evicting/cancelling all other non-streaming tasks first to guarantee
  prompt re-auth). A new streaming request, if one is already active, cancels the prior stream
  (connection reset) before installing the new one. Side effect: may reorder the queue to
  maintain the auth-first, stream-last invariant." The branches, in this order:
  \<^item> an authentication task is always admitted, at position 0; every other task that is not
    of the streaming kind is cancelled and removed; a streaming task stays (the README: "all
    tasks are cancelled and removed from queue ... unless the SSE mode task that stopped and
    waiting for restarting") and is in state \<^verbatim>\<open>streaming-idle\<close> afterwards;
  \<^item> any other task, when the capacity is reached, is refused: the call reports
    \<^verbatim>\<open>QueueFull\<close>, the refused task's own result receives the code -118, the queue is
    not touched;
  \<^item> a streaming task replaces a stream already in the queue: the prior stream is cancelled
    and the connection reset; the new one is installed last;
  \<^item> an ordinary task is inserted ahead of the stream.
  An admitted task enters in state \<^verbatim>\<open>queued\<close>. A stream is called active as long as it
  occupies the queue, as in "last among active tasks" and "if one is already active".
\<close>

definition enqueue :: "async_task \<Rightarrow> async_client \<Rightarrow> enqueue_outcome \<times> async_client" where
  "enqueue t e =
     (if kind t = Authentication then
        (Admitted,
         e\<lparr>queue := t\<lparr>state := Queued\<rparr>
              # map (\<lambda>s. s\<lparr>state := StreamingIdle\<rparr>) (filter is_streaming (queue e)),
           results := cancel_tasks (filter (\<lambda>x. \<not> is_streaming x) (queue e)) (results e)\<rparr>)
      else if capacity e \<le> length (queue e) then
        (QueueFull,
         e\<lparr>results :=
             publish_error (sink t) FIREBASE_ERROR_OPERATION_CANCELLED (results e)\<rparr>)
      else if kind t = Streaming then
        (Admitted,
         e\<lparr>queue := filter (\<lambda>x. \<not> is_streaming x) (queue e) @ [t\<lparr>state := Queued\<rparr>],
           results := cancel_tasks (filter is_streaming (queue e)) (results e),
           transport_connected :=
             (if filter is_streaming (queue e) = [] then transport_connected e else False)\<rparr>)
      else
        (Admitted, e\<lparr>queue := insert_ahead_of_stream (t\<lparr>state := Queued\<rparr>) (queue e)\<rparr>))"

text \<open>
  Modelled from the spec: a client as constructed, with the given capacity, an empty queue,
  no error in any result and no connection.
\<close>

definition new_client :: "nat \<Rightarrow> async_client" where
  "new_client cap =
     \<lparr>queue = [], capacity = cap,
      results = (\<lambda>_. \<lparr>payload = [], error_code = 0\<rparr>),
      transport_connected = False\<rparr>"

text \<open>Some tasks and clients to run the operations on.\<close>

definition t_auth :: async_task where
  "t_auth = \<lparr>uid = ''auth'', kind = Authentication, state = Queued, sink = 0\<rparr>"

definition t_set :: async_task where
  "t_set = \<lparr>uid = ''set'', kind = Ordinary, state = Queued, sink = 3\<rparr>"

definition t_running :: async_task where
  "t_running = \<lparr>uid = ''get'', kind = Ordinary, state = Sending, sink = 2\<rparr>"

definition t_listening :: async_task where
  "t_listening = \<lparr>uid = ''stream'', kind = Streaming, state = Receiving, sink = 1\<rparr>"

definition c_busy :: async_client where
  "c_busy =
     (new_client FIREBASE_ASYNC_QUEUE_LIMIT)\<lparr>queue := [t_running, t_set, t_listening]\<rparr>"

section \<open>Theorems\<close>

subsection \<open>UnityRange\<close>

lemma UnityRange_val_cases:
  "UnityRange_val (Finite a) = Finite (if 1 < a then 1 else if a < 0 then 0 else a)"
  "UnityRange_val PosInf = Finite 1"
  "UnityRange_val NegInf = Finite 0"
  "UnityRange_val NaN = NaN"
  by (simp_all add: UnityRange_val_def float_gt_def)

text \<open>
  C9, as stated, fails at a NaN: both comparisons are false there, so the NaN is returned,
  and a NaN is not in the closed interval from 0 to 1.
\<close>

theorem UnityRange_val_nan_counterexample:
  "\<not> (float_le (Finite 0) (UnityRange_val NaN) \<and> float_le (UnityRange_val NaN) (Finite 1))"
  by (simp add: UnityRange_val_cases float_le_def)

text \<open>
  C9, amended: for every input that is not a NaN, the result lies in the closed interval from
  0 to 1; it is the input itself whenever that lies in the interval, 1 for an input above 1
  and 0 for an input below 0; and applying the function twice gives a result equal to applying
  it once.
\<close>

theorem UnityRange_val_clamps:
  assumes "x \<noteq> NaN"
  shows "float_le (Finite 0) (UnityRange_val x) \<and> float_le (UnityRange_val x) (Finite 1)
       \<and> (float_le (Finite 0) x \<and> float_le x (Finite 1) \<longrightarrow> UnityRange_val x = x)
       \<and> (float_gt x (Finite 1) \<longrightarrow> UnityRange_val x = Finite 1)
       \<and> (float_lt x (Finite 0) \<longrightarrow> UnityRange_val x = Finite 0)
       \<and> float_eq (UnityRange_val (UnityRange_val x)) (UnityRange_val x)"
proof (cases x)
  case (Finite a)
  then show ?thesis
    by (auto simp: UnityRange_val_cases float_le_def float_gt_def)
next
  case PosInf
  then show ?thesis
    by (simp add: UnityRange_val_cases float_le_def float_gt_def)
next
  case NegInf
  then show ?thesis
    by (simp add: UnityRange_val_cases float_le_def float_gt_def)
next
  case NaN
  with assms show ?thesis by simp
qed

theorem UnityRange_val_clamps_witness:
  "UnityRange_val (Finite (1/2)) = Finite (1/2)
   \<and> UnityRange_val (Finite 2) = Finite 1
   \<and> UnityRange_val (Finite (- 1)) = Finite 0
   \<and> float_le (Finite 0) (UnityRange_val PosInf)"
  using UnityRange_val_clamps [of "Finite (1/2)"] UnityRange_val_clamps [of "Finite 2"]
    UnityRange_val_clamps [of "Finite (- 1)"] UnityRange_val_clamps [of PosInf]
  by (simp add: float_le_def float_gt_def)

subsection \<open>ObjectWriter\<close>

text \<open>
  C10: for every path and flag, \<open>makeResourcePath\<close> returns the base followed by the path,
  with a slash between them exactly when the path is non-empty and does not begin with one,
  and with double quotes around the whole exactly when \<open>toString\<close> is true.
\<close>

theorem makeResourcePath_described:
  "makeResourcePath path toString = resource_path_described path toString"
  by (cases path) (simp_all add: makeResourcePath_def resource_path_described_def Let_def)

subsection \<open>Firestore::Databases\<close>

text \<open>
  C8: each synchronous operation of \<open>Databases\<close> and of \<open>Indexes\<close> runs its helper on a
  freshly constructed result, in synchronous mode, with no callback and an empty UID, and
  returns true if and only if the error code of that result is 0 afterwards.
\<close>

theorem sync_operations_return_no_error:
  fixes fb :: "('c, 'r, 'p, 'o, 'i, 'cb) FirestoreBase"
  shows
    "(fst (exportDocuments fb c p opts) =
       (lastError_code fb
          (snd (eximDocs fb c (AsyncResult_new fb) None '''' p opts False False)) = 0))
   \<and> (fst (importDocuments fb c p opts) =
       (lastError_code fb
          (snd (eximDocs fb c (AsyncResult_new fb) None '''' p opts True False)) = 0))
   \<and> (fst (create fb c p db) =
       (lastError_code fb
          (snd (manageDatabase fb c (AsyncResult_new fb) None '''' p db ''''
                  firestore_database_mode_create False)) = 0))
   \<and> (fst (deleteDatabase fb c p etag) =
       (lastError_code fb
          (snd (manageDatabase fb c (AsyncResult_new fb) None '''' p '''' etag
                  firestore_database_mode_delete False)) = 0))
   \<and> (fst (get fb c p) =
       (lastError_code fb
          (snd (manageDatabase fb c (AsyncResult_new fb) None '''' p '''' ''''
                  firestore_database_mode_get False)) = 0))
   \<and> (fst (list fb c p) =
       (lastError_code fb
          (snd (manageDatabase fb c (AsyncResult_new fb) None '''' p '''' ''''
                  firestore_database_mode_list False)) = 0))
   \<and> (fst (patch fb c p db updateMask) =
       (lastError_code fb
          (snd (manageDatabase fb c (AsyncResult_new fb) None '''' p db updateMask
                  firestore_database_mode_patch False)) = 0))
   \<and> (fst (Indexes_create fb c p ix) =
       (lastError_code fb
          (snd (databaseIndexManager fb c (AsyncResult_new fb) None '''' p ix ''''
                  False False)) = 0))
   \<and> (fst (Indexes_deleteIndex fb c p indexId) =
       (lastError_code fb
          (snd (databaseIndexManager fb c (AsyncResult_new fb) None '''' p (Index_new fb '''')
                  indexId True False)) = 0))
   \<and> (fst (Indexes_get fb c p indexId) =
       (lastError_code fb
          (snd (databaseIndexManager fb c (AsyncResult_new fb) None '''' p (Index_new fb '''')
                  indexId False False)) = 0))
   \<and> (fst (Indexes_list fb c p) =
       (lastError_code fb
          (snd (databaseIndexManager fb c (AsyncResult_new fb) None '''' p (Index_new fb '''')
                  '''' False False)) = 0))"
  by (simp add: exportDocuments_def importDocuments_def create_def deleteDatabase_def
      get_def list_def patch_def Indexes_create_def Indexes_deleteIndex_def Indexes_get_def
      Indexes_list_def Let_def split_beta)

subsection \<open>The async queue\<close>

lemma cancel_tasks_keeps:
  "error_code (rs r) = FIREBASE_ERROR_OPERATION_CANCELLED \<Longrightarrow>
   error_code (cancel_tasks xs rs r) = FIREBASE_ERROR_OPERATION_CANCELLED"
  unfolding cancel_tasks_def
  by (induction xs arbitrary: rs) (simp_all add: publish_error_def)

lemma cancel_tasks_publishes:
  "x \<in> set xs \<Longrightarrow>
   error_code (cancel_tasks xs rs (sink x)) = FIREBASE_ERROR_OPERATION_CANCELLED"
proof (induction xs arbitrary: rs)
  case Nil
  then show ?case by simp
next
  case (Cons a xs)
  show ?case
  proof (cases "x \<in> set xs")
    case True
    then have "error_code (cancel_tasks xs (publish_error (sink a) FIREBASE_ERROR_OPERATION_CANCELLED rs) (sink x))
        = FIREBASE_ERROR_OPERATION_CANCELLED"
      by (rule Cons.IH)
    then show ?thesis by (simp add: cancel_tasks_def)
  next
    case False
    with Cons.prems have "x = a" by simp
    then have "error_code (publish_error (sink a) FIREBASE_ERROR_OPERATION_CANCELLED rs (sink x))
        = FIREBASE_ERROR_OPERATION_CANCELLED"
      by (simp add: publish_error_def)
    then have "error_code (cancel_tasks xs (publish_error (sink a) FIREBASE_ERROR_OPERATION_CANCELLED rs) (sink x))
        = FIREBASE_ERROR_OPERATION_CANCELLED"
      by (rule cancel_tasks_keeps)
    then show ?thesis by (simp add: cancel_tasks_def)
  qed
qed

text \<open>
  C2: when an authentication task is enqueued, it is admitted and stands at position 0 of the
  queue afterwards; every task that was queued and is not an authentication task is either of
  the streaming kind, and then it is still in the queue, in state \<open>streaming-idle\<close>, or it
  is gone from the queue and its result carries the error code -118. Nothing but idle streams
  stands behind the authentication task.
\<close>

theorem authentication_preempts:
  assumes "kind t = Authentication" and "e' = snd (enqueue t e)"
  shows "fst (enqueue t e) = Admitted
       \<and> queue e' \<noteq> [] \<and> queue e' ! 0 = t\<lparr>state := Queued\<rparr>
       \<and> (\<forall>x \<in> set (queue e). kind x \<noteq> Authentication \<longrightarrow>
            (if kind x = Streaming
             then x\<lparr>state := StreamingIdle\<rparr> \<in> set (queue e')
             else x \<notin> set (queue e') \<and> error_code (results e' (sink x)) = - 118))
       \<and> (\<forall>y \<in> set (tl (queue e')). kind y = Streaming \<and> state y = StreamingIdle)"
proof -
  let ?kept = "map (\<lambda>s. s\<lparr>state := StreamingIdle\<rparr>) (filter is_streaming (queue e))"
  let ?evicted = "filter (\<lambda>x. \<not> is_streaming x) (queue e)"
  have q: "queue e' = t\<lparr>state := Queued\<rparr> # ?kept"
    and r: "results e' = cancel_tasks ?evicted (results e)"
    and a: "fst (enqueue t e) = Admitted"
    using assms by (simp_all add: enqueue_def)
  have kept: "\<forall>y \<in> set ?kept. kind y = Streaming \<and> state y = StreamingIdle"
    by (auto simp: is_streaming_def)
  have each: "if kind x = Streaming
             then x\<lparr>state := StreamingIdle\<rparr> \<in> set (queue e')
             else x \<notin> set (queue e') \<and> error_code (results e' (sink x)) = - 118"
    if x: "x \<in> set (queue e)" and na: "kind x \<noteq> Authentication" for x
  proof (cases "kind x = Streaming")
    case True
    with x have "x\<lparr>state := StreamingIdle\<rparr> \<in> set ?kept" by (simp add: is_streaming_def)
    with True show ?thesis by (simp add: q)
  next
    case False
    with x have "x \<in> set ?evicted" by (simp add: is_streaming_def)
    then have "error_code (cancel_tasks ?evicted (results e) (sink x))
        = FIREBASE_ERROR_OPERATION_CANCELLED"
      by (rule cancel_tasks_publishes)
    moreover have "x \<notin> set ?kept" using kept False by blast
    moreover have "x \<noteq> t\<lparr>state := Queued\<rparr>" using na assms(1) by auto
    ultimately show ?thesis using False
      by (simp add: q r FIREBASE_ERROR_OPERATION_CANCELLED_def)
  qed
  have p1: "queue e' \<noteq> []" and p2: "queue e' ! 0 = t\<lparr>state := Queued\<rparr>"
    by (simp_all add: q)
  have p3: "\<forall>y \<in> set (tl (queue e')). kind y = Streaming \<and> state y = StreamingIdle"
    using kept by (simp only: q list.sel)
  have p4: "\<forall>x \<in> set (queue e). kind x \<noteq> Authentication \<longrightarrow>
            (if kind x = Streaming
             then x\<lparr>state := StreamingIdle\<rparr> \<in> set (queue e')
             else x \<notin> set (queue e') \<and> error_code (results e' (sink x)) = - 118)"
    using each by blast
  from a p1 p2 p4 p3 show ?thesis by blast
qed

theorem authentication_preempts_witness:
  "queue (snd (enqueue t_auth c_busy)) = [t_auth, t_listening\<lparr>state := StreamingIdle\<rparr>]
   \<and> error_code (results (snd (enqueue t_auth c_busy)) 2) = - 118
   \<and> error_code (results (snd (enqueue t_auth c_busy)) 3) = - 118
   \<and> error_code (results (snd (enqueue t_auth c_busy)) 1) = 0"
  using authentication_preempts [of t_auth "snd (enqueue t_auth c_busy)" c_busy]
  by (simp add: enqueue_def c_busy_def new_client_def t_auth_def t_running_def t_set_def
      t_listening_def is_streaming_def cancel_tasks_def publish_error_def
      FIREBASE_ERROR_OPERATION_CANCELLED_def)

end
